theory Spec2Isabelle
  imports Main "HOL-Library.AList"
begin

section \<open>Python strings\<close>

text \<open>
  A Python \<open>str\<close> is modelled as a \<open>string\<close>; each \<open>char\<close> stands for one code point
  below 256. \<open>str.strip()\<close> and \<open>str.split()\<close> remove the characters for which
  \<open>str.isspace\<close> holds; below 256 these are the twelve listed here.
\<close>

definition py_whitespace :: "char list" where
  "py_whitespace =
     [CHR 0x09, CHR 0x0A, CHR 0x0B, CHR 0x0C, CHR 0x0D,
      CHR 0x1C, CHR 0x1D, CHR 0x1E, CHR 0x1F, CHR 0x20, CHR 0x85, CHR 0xA0]"

definition py_isspace :: "char \<Rightarrow> bool" where
  "py_isspace c = (c \<in> set py_whitespace)"

text \<open>\<open>s.strip()\<close>: leading and trailing whitespace removed.\<close>

definition py_strip :: "string \<Rightarrow> string" where
  "py_strip s = rev (dropWhile py_isspace (rev (dropWhile py_isspace s)))"

text \<open>
  \<open>s.split(sep)\<close> for a one-character separator: every occurrence of the separator
  ends a field, empty fields are kept, and the result is never empty.
  \<open>split_on c cur s\<close> has read the characters \<open>cur\<close> of the current field.
\<close>

fun split_on :: "char \<Rightarrow> string \<Rightarrow> string \<Rightarrow> string list" where
  "split_on c cur [] = [cur]"
| "split_on c cur (x # xs) =
     (if x = c then cur # split_on c [] xs else split_on c (cur @ [x]) xs)"

definition py_split_sep :: "char \<Rightarrow> string \<Rightarrow> string list" where
  "py_split_sep c s = split_on c [] s"

text \<open>
  \<open>s.split()\<close> with no argument: fields are separated by runs of whitespace and
  empty fields are dropped.
\<close>

fun split_ws :: "string \<Rightarrow> string \<Rightarrow> string list" where
  "split_ws cur [] = (if cur = [] then [] else [cur])"
| "split_ws cur (x # xs) =
     (if py_isspace x then (if cur = [] then split_ws [] xs else cur # split_ws [] xs)
      else split_ws (cur @ [x]) xs)"

definition py_split :: "string \<Rightarrow> string list" where
  "py_split s = split_ws [] s"

text \<open>\<open>sep.join(xs)\<close>.\<close>

fun py_join :: "string \<Rightarrow> string list \<Rightarrow> string" where
  "py_join sep [] = []"
| "py_join sep [x] = x"
| "py_join sep (x # y # ys) = x @ sep @ py_join sep (y # ys)"

section \<open>Failures\<close>

text \<open>
  Every way a run can stop. The first six are the calls of \<open>print_error_and_stop\<close>
  (the message goes to the error stream and \<open>sys.exit()\<close> ends the run); they carry the
  values formatted into the message. The others are exceptions the interpreter or numpy
  raises, which nothing in the program catches; \<open>PyIOError\<close> stands for a file that
  cannot be opened.

  \<^item> \<open>DuplicateIdentifierError f\<close>: \<^verbatim>\<open>The file "f" contains duplicates.\<close>
  \<^item> \<open>UnmatchedSampleError s f\<close>: \<^verbatim>\<open>The sample "s" was not in listed in "f" ...\<close>
  \<^item> \<open>MissingOutputDestinationError\<close>: \<^verbatim>\<open>Please specify --sample-out.\<close>
  \<^item> \<open>IncompletePermutationError\<close>: \<^verbatim>\<open>Error in making the index array\<close>
  \<^item> \<open>InconsistentRowWidthError\<close>:
    \<^verbatim>\<open>The number of genotypes in the input is not constant.\<close>
  \<^item> \<open>GenotypeCountMismatchError d n\<close>:
    \<^verbatim>\<open>Line for the SNP "d" did not have 3*n genotype probabilities\<close>
\<close>

datatype error =
    DuplicateIdentifierError string
  | UnmatchedSampleError string string
  | MissingOutputDestinationError
  | IncompletePermutationError
  | InconsistentRowWidthError
  | GenotypeCountMismatchError string nat
  | PyAttributeError string
  | PyTypeError
  | PyIndexError
  | PyValueError
  | PyIOError

text \<open>A failure ends the run: what follows is skipped.\<close>

definition bind_err :: "error + 'a \<Rightarrow> ('a \<Rightarrow> error + 'b) \<Rightarrow> error + 'b" where
  "bind_err m f = (case m of Inl e \<Rightarrow> Inl e | Inr x \<Rightarrow> f x)"

section \<open>The variant row parser\<close>

definition MAX_SNPS_IN_BUFFER :: nat where
  "MAX_SNPS_IN_BUFFER = 6"

text \<open>
  A numpy array of strings has a fixed-width character type: a cell is padded with NUL
  characters, and reading it gives the string without its trailing NULs.
\<close>

definition np_cell :: "string \<Rightarrow> string" where
  "np_cell s = rev (dropWhile (\<lambda>c. c = CHR 0x00) (rev s))"

text \<open>
  The program imports numpy and names no version of it. What \<open>numpy.array\<close> does with
  rows of different lengths depends on the version: before 1.24 it gives a
  one-dimensional array of the row lists, from 1.24 on it raises \<open>ValueError\<close>. The
  installed numpy is a parameter of everything that builds an array.
\<close>

datatype numpy = NumpyBefore_1_24 | NumpyFrom_1_24

definition gen_tokens :: "string \<Rightarrow> string list" where
  "gen_tokens i = map np_cell (py_split_sep CHR '' '' (py_strip i))"

text \<open>
  \<open>numpy.array([i.strip().split(' ') for i in lines])\<close>. When the rows have one length
  the result is a two-dimensional array of strings, with either numpy. An array of row
  lists and a two-dimensional array are both a list of rows here; the length of a row is
  the same in either.
\<close>

definition numpy_array :: "numpy \<Rightarrow> string list \<Rightarrow> error + string list list" where
  "numpy_array np lines =
     (let rows = map gen_tokens lines in
      if list_ex (\<lambda>i. length i \<noteq> length (hd rows)) rows \<and> np = NumpyFrom_1_24
      then Inl PyValueError else Inr rows)"

text \<open>The descriptor width chosen from the column count of the first row.\<close>

definition i_genotypes :: "nat \<Rightarrow> nat" where
  "i_genotypes n = (if n mod 3 = 0 then 6 else 5)"

text \<open>
  \<open>row.reshape(n_samples, 3)\<close> for a row of \<open>3 * n_samples\<close> cells: sample \<open>s\<close> owns the
  cells \<open>3 * s\<close>, \<open>3 * s + 1\<close> and \<open>3 * s + 2\<close>.
\<close>

definition reshape_row :: "nat \<Rightarrow> 'a list \<Rightarrow> 'a list list" where
  "reshape_row n_samples row = map (\<lambda>s. take 3 (drop (3 * s) row)) [0..<n_samples]"

text \<open>
  \<open>read_gen_lines(lines, n_samples)\<close>.
  \<^item> \<open>array[0]\<close> of an empty array raises \<open>IndexError\<close>.
  \<^item> In the message of the genotype count failure, \<open>' '.join(non_genotype_cols)\<close> joins
    the rows of a two-dimensional array, which are arrays and not strings: \<open>str.join\<close>
    raises \<open>TypeError\<close> while the arguments of \<open>msg.format\<close> are evaluated, before
    \<open>print_error_and_stop\<close> is called. The array is two-dimensional there because the
    rows have passed the test on their lengths.
  \<^item> The test on the row lengths is reached with rows of different lengths only when
    \<open>numpy.array\<close> has not raised.
  \<^item> Slices past the end of a row are cut short, as \<open>take\<close> and \<open>drop\<close> are.
\<close>

definition read_gen_lines ::
  "numpy \<Rightarrow> string list \<Rightarrow> nat \<Rightarrow> error + (string list list \<times> string list list list)" where
  "read_gen_lines np lines n_samples =
     (case numpy_array np lines of
        Inl e \<Rightarrow> Inl e
      | Inr [] \<Rightarrow> Inl PyIndexError
      | Inr (first # rest) \<Rightarrow>
          let array = first # rest; n = length first in
          if list_ex (\<lambda>i. length i \<noteq> n) array then Inl InconsistentRowWidthError
          else
            let non_genotype_cols = map (take (i_genotypes (length first))) array;
                genotype_cols = map (drop (i_genotypes (length first))) array
            in if length (hd genotype_cols) \<noteq> 3 * n_samples then Inl PyTypeError
               else Inr (non_genotype_cols, map (reshape_row n_samples) genotype_cols))"

section \<open>The reorder engine\<close>

text \<open>
  \<open>_write_lines(op, lines, n_samples_input, index_array)\<close>. The output stream \<open>op\<close> is
  the text written to it so far; the result is the stream after the write and the number
  of rows written.
  \<^item> \<open>genotypes[numpy.ix_(range(len(genotypes)), index_array)]\<close> raises \<open>IndexError\<close>
    when an index is not below the sample count; otherwise row \<open>r\<close> of the result is
    \<open>[genotypes[r][i] for i in index_array]\<close>.
  \<^item> The reshape to \<open>len(index_array) * 3\<close> columns concatenates the triplets of a row,
    and \<open>column_stack\<close> puts the descriptor columns of the row before them.
\<close>

definition write_lines ::
  "numpy \<Rightarrow> string \<Rightarrow> string list \<Rightarrow> nat \<Rightarrow> nat list \<Rightarrow> error + (string \<times> nat)" where
  "write_lines np op lines n_samples_input index_array =
     (case read_gen_lines np lines n_samples_input of
        Inl e \<Rightarrow> Inl e
      | Inr (snp_info_lines, genotypes) \<Rightarrow>
          if list_ex (\<lambda>i. n_samples_input \<le> i) index_array then Inl PyIndexError
          else
            let ordered_genotypes =
                  map (\<lambda>g. concat (map (\<lambda>i. g ! i) index_array)) genotypes;
                op_data = map (\<lambda>(d, g). d @ g) (zip snp_info_lines ordered_genotypes);
                op_lines = map (py_join '' '') op_data
            in Inr (op @ py_join [CHR 0x0A] op_lines @ [CHR 0x0A], length op_lines))"

section \<open>The stream driver\<close>

text \<open>
  The loop of \<open>write_output\<close> over the input stream: \<open>counter\<close> and \<open>buffered_lines\<close> are
  its two variables, the last argument is what remains of the stream. A failure of
  \<open>_write_lines\<close> ends the run; the stream keeps what earlier batches wrote.
\<close>

fun write_output_loop ::
  "numpy \<Rightarrow> string \<Rightarrow> nat \<Rightarrow> string list \<Rightarrow> nat \<Rightarrow> nat list \<Rightarrow> string list
     \<Rightarrow> string \<times> (error + nat)" where
  "write_output_loop np op counter buffered_lines n_samples_input index_array [] =
     (if length buffered_lines > 0 then
        (case write_lines np op buffered_lines n_samples_input index_array of
           Inl e \<Rightarrow> (op, Inl e)
         | Inr (op', k) \<Rightarrow> (op', Inr (counter + k)))
      else (op, Inr counter))"
| "write_output_loop np op counter buffered_lines n_samples_input index_array (line # ip) =
     (if length (buffered_lines @ [line]) = MAX_SNPS_IN_BUFFER then
        (case write_lines np op (buffered_lines @ [line]) n_samples_input index_array of
           Inl e \<Rightarrow> (op, Inl e)
         | Inr (op', k) \<Rightarrow>
             write_output_loop np op' (counter + k) [] n_samples_input index_array ip)
      else write_output_loop np op counter (buffered_lines @ [line]) n_samples_input
             index_array ip)"

definition write_output ::
  "numpy \<Rightarrow> string list \<Rightarrow> string \<Rightarrow> nat \<Rightarrow> nat list \<Rightarrow> string \<times> (error + nat)" where
  "write_output np ip op n_samples_input index_array =
     write_output_loop np op 0 [] n_samples_input index_array ip"

section \<open>Options and files\<close>

text \<open>
  The values an option can hold, and the namespace \<open>parse_options\<close> returns: one
  attribute for each \<open>dest\<close> of the parser and no other. Reading an attribute the
  namespace does not have raises \<open>AttributeError\<close>.
\<close>

datatype pyval = PyNone | PyStr string | PyBool bool

type_synonym namespace = "string \<rightharpoonup> pyval"

record cli =
  cli_gen_in :: "string option"
  cli_gen_out :: "string option"
  cli_sample_in :: "string option"
  cli_sample_out :: "string option"
  cli_order :: "string option"
  cli_model_sample :: "string option"
  cli_allow_subsetting :: bool

definition opt_val :: "string option \<Rightarrow> pyval" where
  "opt_val v = (case v of None \<Rightarrow> PyNone | Some s \<Rightarrow> PyStr s)"

definition parse_options :: "cli \<Rightarrow> namespace" where
  "parse_options c =
     [''genfile_in'' \<mapsto> opt_val (cli_gen_in c),
      ''genfile_out'' \<mapsto> opt_val (cli_gen_out c),
      ''sample_in'' \<mapsto> opt_val (cli_sample_in c),
      ''sample_out'' \<mapsto> opt_val (cli_sample_out c),
      ''order'' \<mapsto> opt_val (cli_order c),
      ''model_sample'' \<mapsto> opt_val (cli_model_sample c),
      ''allow_subsetting'' \<mapsto> PyBool (cli_allow_subsetting c)]"

definition getattr :: "namespace \<Rightarrow> string \<Rightarrow> error + pyval" where
  "getattr options name =
     (case options name of None \<Rightarrow> Inl (PyAttributeError name) | Some v \<Rightarrow> Inr v)"

definition truthy :: "pyval \<Rightarrow> bool" where
  "truthy v = (case v of PyNone \<Rightarrow> False | PyStr s \<Rightarrow> s \<noteq> [] | PyBool b \<Rightarrow> b)"

definition py_str :: "pyval \<Rightarrow> string" where
  "py_str v = (case v of PyNone \<Rightarrow> ''None'' | PyStr s \<Rightarrow> s
               | PyBool b \<Rightarrow> (if b then ''True'' else ''False''))"

text \<open>
  The text files by name, each as the lines \<open>readlines()\<close> gives. Opening a name that is
  not a string raises \<open>TypeError\<close>, opening a file that does not exist \<open>IOError\<close>.
\<close>

type_synonym files = "string \<rightharpoonup> string list"

definition open_read :: "files \<Rightarrow> pyval \<Rightarrow> error + string list" where
  "open_read fs fname =
     (case fname of
        PyStr f \<Rightarrow> (case fs f of None \<Rightarrow> Inl PyIOError | Some ls \<Rightarrow> Inr ls)
      | _ \<Rightarrow> Inl PyTypeError)"

text \<open>
  Opening a file for writing leaves it empty. It fails for a name that cannot be created
  or truncated (the empty name, a name in a directory that does not exist, a directory):
  \<open>writable\<close> says which names can.
\<close>

definition open_write :: "files \<Rightarrow> (string \<Rightarrow> bool) \<Rightarrow> pyval \<Rightarrow> error + files" where
  "open_write fs writable fname =
     (case fname of
        PyStr f \<Rightarrow> (if writable f then Inr (fs(f \<mapsto> [])) else Inl PyIOError)
      | _ \<Rightarrow> Inl PyTypeError)"

section \<open>The sample order reader\<close>

definition sample_id :: "string \<Rightarrow> string" where
  "sample_id line = py_join '' '' (take 2 (py_split (py_strip line)))"

text \<open>
  \<open>read_sample_order(fname, is_sample_file)\<close>. The dictionary \<open>{i: i for i in ...}\<close> has
  one key for each distinct identifier, so its length is that of \<open>remdups\<close>.
\<close>

definition read_sample_order :: "files \<Rightarrow> pyval \<Rightarrow> bool \<Rightarrow> error + string list" where
  "read_sample_order fs fname is_sample_file =
     (case open_read fs fname of
        Inl e \<Rightarrow> Inl e
      | Inr file_lines \<Rightarrow>
          let ids = map sample_id file_lines;
              input_sample_order = (if is_sample_file then drop 2 ids else ids)
          in if length (remdups input_sample_order) \<noteq> length input_sample_order
             then Inl (DuplicateIdentifierError (py_str fname))
             else Inr input_sample_order)"

text \<open>
  The identifier sequence of the lines of a file: one identifier for each line, after the
  two header lines when the file is a sample file.
\<close>

definition identifiers :: "bool \<Rightarrow> string list \<Rightarrow> string list" where
  "identifiers is_sample_file file_lines =
     map sample_id (if is_sample_file then drop 2 file_lines else file_lines)"

section \<open>The index resolver\<close>

text \<open>
  A dictionary is an association list in insertion order; \<open>d[k] = v\<close> is
  \<open>AList.update k v d\<close>, which keeps the place of a key already there.
\<close>

definition new_sample_dict :: "string list \<Rightarrow> (string \<times> nat) list" where
  "new_sample_dict new_sample_order =
     fold (\<lambda>(i, v) d. AList.update v i d) (List.enumerate 0 new_sample_order) []"

text \<open>
  The loop that fills \<open>old_to_new_index\<close>; the last argument is what remains of
  \<open>enumerate(input_sample_order)\<close>. \<open>options.allow_subsetting\<close> is read only when an
  identifier is missing from the new order.
\<close>

fun old_to_new_loop ::
  "namespace \<Rightarrow> (string \<times> nat) list \<Rightarrow> string \<Rightarrow> (nat \<times> nat) list \<Rightarrow> (nat \<times> string) list
     \<Rightarrow> error + (nat \<times> nat) list" where
  "old_to_new_loop options dict fname old_to_new_index [] = Inr old_to_new_index"
| "old_to_new_loop options dict fname old_to_new_index ((i_old, sid) # rest) =
     (case map_of dict sid of
        Some i_new \<Rightarrow>
          old_to_new_loop options dict fname (AList.update i_old i_new old_to_new_index) rest
      | None \<Rightarrow>
          (case getattr options ''allow_subsetting'' of
             Inl e \<Rightarrow> Inl e
           | Inr v \<Rightarrow>
               if truthy v then old_to_new_loop options dict fname old_to_new_index rest
               else Inl (UnmatchedSampleError sid fname)))"

definition old_to_new_index ::
  "namespace \<Rightarrow> string list \<Rightarrow> string list \<Rightarrow> string \<Rightarrow> error + (nat \<times> nat) list" where
  "old_to_new_index options input_sample_order new_sample_order fname =
     old_to_new_loop options (new_sample_dict new_sample_order) fname []
       (List.enumerate 0 input_sample_order)"

definition new_to_old_index :: "(nat \<times> nat) list \<Rightarrow> (nat \<times> nat) list" where
  "new_to_old_index old_to_new = fold (\<lambda>(i_old, i_new) d. AList.update i_new i_old d) old_to_new []"

text \<open>
  \<open>index_array[new_index] = old_index\<close> for each item; an assignment past the end of a
  list raises \<open>IndexError\<close>.
\<close>

fun fill_index_array :: "(nat \<times> nat) list \<Rightarrow> nat option list \<Rightarrow> error + nat option list" where
  "fill_index_array [] index_array = Inr index_array"
| "fill_index_array ((new_index, old_index) # rest) index_array =
     (if new_index < length index_array
      then fill_index_array rest (index_array[new_index := Some old_index])
      else Inl PyIndexError)"

definition index_array_of :: "(nat \<times> nat) list \<Rightarrow> error + nat list" where
  "index_array_of old_to_new =
     (let new_to_old = new_to_old_index old_to_new in
      case fill_index_array new_to_old (replicate (length new_to_old) None) of
        Inl e \<Rightarrow> Inl e
      | Inr index_array \<Rightarrow>
          if None \<in> set index_array then Inl IncompletePermutationError
          else Inr (map the index_array))"

text \<open>
  The two steps of \<open>main\<close> that make the index array from the two sample orders, without
  the rewriting of the sample file that \<open>main\<close> does between them.
\<close>

definition index_resolver ::
  "namespace \<Rightarrow> string list \<Rightarrow> string list \<Rightarrow> string \<Rightarrow> error + nat list" where
  "index_resolver options input_sample_order new_sample_order fname =
     (case old_to_new_index options input_sample_order new_sample_order fname of
        Inl e \<Rightarrow> Inl e
      | Inr old_to_new \<Rightarrow> index_array_of old_to_new)"

section \<open>The new sample file\<close>

text \<open>
  The loop over \<open>enumerate(old_lines[2:])\<close> that places each kept line at its new
  position, and the text written: \<open>i.strip()\<close> of a position still \<open>None\<close> raises
  \<open>AttributeError\<close>.
\<close>

fun place_lines ::
  "(nat \<times> nat) list \<Rightarrow> string option list \<Rightarrow> (nat \<times> string) list \<Rightarrow> error + string option list" where
  "place_lines old_to_new new_lines [] = Inr new_lines"
| "place_lines old_to_new new_lines ((i_old, l) # rest) =
     (case map_of old_to_new i_old of
        None \<Rightarrow> place_lines old_to_new new_lines rest
      | Some i_new \<Rightarrow>
          if i_new < length new_lines
          then place_lines old_to_new (new_lines[i_new := Some l]) rest
          else Inl PyIndexError)"

definition new_sample_text ::
  "(nat \<times> nat) list \<Rightarrow> string list \<Rightarrow> string list \<Rightarrow> error + string" where
  "new_sample_text old_to_new new_sample_order old_lines =
     (case place_lines old_to_new (replicate (length new_sample_order) None)
             (List.enumerate 0 (drop 2 old_lines)) of
        Inl e \<Rightarrow> Inl e
      | Inr placed \<Rightarrow>
          let new_lines = map Some (take 2 old_lines) @ placed in
          if None \<in> set new_lines then Inl (PyAttributeError ''strip'')
          else Inr (py_join [CHR 0x0A] (map (\<lambda>i. py_strip (the i)) new_lines) @ [CHR 0x0A]))"

section \<open>The program\<close>

record main_result =
  sample_out_text :: string
  gen_out_text :: string
  n_samples_written :: nat
  n_lines_written :: nat

text \<open>
  \<open>main()\<close> with the installed numpy, on the parsed options, the text files, the names
  that can be opened for writing and the lines \<open>ip\<close> of the genotype input stream (the
  choice and opening of the genotype streams is left out; the output stream starts
  empty). Opening the new sample file for writing empties it before the input sample file
  is read again. A run that fails returns the failure alone.
\<close>

definition main ::
  "numpy \<Rightarrow> namespace \<Rightarrow> files \<Rightarrow> (string \<Rightarrow> bool) \<Rightarrow> string list \<Rightarrow> error + main_result" where
  "main np options fs writable ip =
     bind_err (getattr options ''sample_in'') (\<lambda>sample_in.
     bind_err (read_sample_order fs sample_in True) (\<lambda>input_sample_order.
     bind_err (getattr options ''model_sample'') (\<lambda>model_sample.
     bind_err (if model_sample = PyNone
               then bind_err (getattr options ''new_order'') (\<lambda>new_order. Inr (new_order, False))
               else Inr (model_sample, True)) (\<lambda>new_sample_order_fname_is_sample_file.
     let new_sample_order_fname = fst new_sample_order_fname_is_sample_file;
         is_sample_file = snd new_sample_order_fname_is_sample_file in
     bind_err (read_sample_order fs new_sample_order_fname is_sample_file) (\<lambda>new_sample_order.
     bind_err (old_to_new_index options input_sample_order new_sample_order
                 (py_str new_sample_order_fname)) (\<lambda>old_to_new.
     bind_err (getattr options ''sample_out'') (\<lambda>sample_out.
     if sample_out = PyNone then Inl MissingOutputDestinationError else
     bind_err (open_write fs writable sample_out) (\<lambda>fs'.
     bind_err (open_read fs' sample_in) (\<lambda>old_lines.
     bind_err (new_sample_text old_to_new new_sample_order old_lines) (\<lambda>sample_text.
     bind_err (index_array_of old_to_new) (\<lambda>index_array.
     let written = write_output np ip [] (length input_sample_order) index_array in
     bind_err (snd written) (\<lambda>n_written.
       Inr \<lparr>sample_out_text = sample_text, gen_out_text = fst written,
            n_samples_written = length index_array, n_lines_written = n_written\<rparr>))))))))))))"

section \<open>Batches of the stream\<close>

text \<open>
  The batches the loop of \<open>write_output\<close> hands to \<open>_write_lines\<close>, in order: the
  same buffering with the calls left out. \<open>run_batches\<close> is the sequence of calls.
\<close>

fun buffered_batches :: "string list \<Rightarrow> string list \<Rightarrow> string list list" where
  "buffered_batches buffered_lines [] =
     (if length buffered_lines > 0 then [buffered_lines] else [])"
| "buffered_batches buffered_lines (line # ip) =
     (if length (buffered_lines @ [line]) = MAX_SNPS_IN_BUFFER
      then (buffered_lines @ [line]) # buffered_batches [] ip
      else buffered_batches (buffered_lines @ [line]) ip)"

fun run_batches ::
  "numpy \<Rightarrow> string \<Rightarrow> nat \<Rightarrow> nat \<Rightarrow> nat list \<Rightarrow> string list list \<Rightarrow> string \<times> (error + nat)" where
  "run_batches np op counter n_samples_input index_array [] = (op, Inr counter)"
| "run_batches np op counter n_samples_input index_array (b # bs) =
     (case write_lines np op b n_samples_input index_array of
        Inl e \<Rightarrow> (op, Inl e)
      | Inr (op', k) \<Rightarrow> run_batches np op' (counter + k) n_samples_input index_array bs)"

text \<open>The column count of a line, and a batch with a row whose count is not the first row's.\<close>

definition n_columns :: "string \<Rightarrow> nat" where
  "n_columns line = length (gen_tokens line)"

definition inconsistent_batch :: "string list \<Rightarrow> bool" where
  "inconsistent_batch lines = list_ex (\<lambda>l. n_columns l \<noteq> n_columns (hd lines)) lines"

text \<open>
  The output line of one input line of a batch that passes the parser's checks: the
  descriptor columns, then the triplets picked by the index array.
\<close>

definition op_line :: "nat \<Rightarrow> nat list \<Rightarrow> string \<Rightarrow> string" where
  "op_line n_samples_input index_array line =
     (let row = gen_tokens line; k = i_genotypes (length row)
      in py_join '' ''
           (take k row @ concat (map (\<lambda>i. reshape_row n_samples_input (drop k row) ! i) index_array)))"

section \<open>Example inputs\<close>

text \<open>Seven rows of eleven columns: one more than a full batch, for two samples.\<close>

definition seven_lines :: "string list" where
  "seven_lines =
     [''1 rs1 10 A C 1 0 0 0 1 0\<newline>'', ''1 rs2 20 A G 0 1 0 0 0 1\<newline>'',
      ''1 rs3 30 C G 0 0 1 1 0 0\<newline>'', ''1 rs4 40 C T 1 0 0 0 0 1\<newline>'',
      ''1 rs5 50 G T 0 1 0 1 0 0\<newline>'', ''1 rs6 60 A T 0 0 1 0 1 0\<newline>'',
      ''1 rs7 70 T A 0.5 0.5 0 0.1 0.2 0.7\<newline>'']"

text \<open>Two rows of eleven columns, for two samples.\<close>

definition two_lines :: "string list" where
  "two_lines = [''1 rs1 10 A C 1 0 0 0 1 0\<newline>'', ''1 rs7 70 T A 0.5 0.5 0 0.1 0.2 0.7\<newline>'']"

text \<open>
  Seven rows for one sample: a full batch of rows of eight columns, then a row of nine
  columns that begins with a chromosome code.
\<close>

definition mixed_width_lines :: "string list" where
  "mixed_width_lines =
     [''rs1 10 1 A C 1 0 0\<newline>'', ''rs2 20 2 A G 0 1 0\<newline>'', ''rs3 30 3 C G 0 0 1\<newline>'',
      ''rs4 40 4 C T 1 0 0\<newline>'', ''rs5 50 5 G T 0 1 0\<newline>'', ''rs6 60 6 A T 0 0 1\<newline>'',
      ''01 rs7 70 7 T A 0.5 0.5 0\<newline>'']"

text \<open>One batch of two rows, of eight and of nine columns.\<close>

definition ragged_lines :: "string list" where
  "ragged_lines = [''rs6 60 6 A T 0 0 1\<newline>'', ''01 rs7 70 7 T A 0.5 0.5 0\<newline>'']"

text \<open>
  Sample files and order files: an input sample file of three samples, a model sample
  file and a plain order file that list them in another order, and an order file that
  lists one sample twice.
\<close>

definition sample_fs :: files where
  "sample_fs =
     [''in.sample'' \<mapsto> [''ID_1 ID_2 missing\<newline>'', ''0 0 0\<newline>'', ''fA A 0\<newline>'', ''fB B 0\<newline>'', ''fC C 0\<newline>''],
      ''model.sample'' \<mapsto> [''ID_1 ID_2 missing\<newline>'', ''0 0 0\<newline>'', ''fC  C 0\<newline>'', ''fA A 0\<newline>'', ''fB'' @ [CHR 0x09] @ ''B 1\<newline>''],
      ''order.txt'' \<mapsto> [''fC C\<newline>'', ''fA A\<newline>'', ''fB B\<newline>''],
      ''twice.txt'' \<mapsto> [''fC C\<newline>'', ''fA A\<newline>'', ''fC  C 1\<newline>'']]"

text \<open>
  An input sample file of two samples and a model sample file that lists them and a
  third sample the input does not have.
\<close>

definition missing_fs :: files where
  "missing_fs =
     [''in.sample'' \<mapsto> [''ID_1 ID_2 missing\<newline>'', ''0 0 0\<newline>'', ''fA A 0\<newline>'', ''fB B 0\<newline>''],
      ''model.sample'' \<mapsto> [''ID_1 ID_2 missing\<newline>'', ''0 0 0\<newline>'', ''fA A 0\<newline>'', ''fB B 0\<newline>'', ''fD D 0\<newline>'']]"

text \<open>The names that can be opened for writing in the examples.\<close>

definition example_writable :: "string \<Rightarrow> bool" where
  "example_writable f = (f = ''out.sample'' \<or> f = ''out.gen'')"

text \<open>
  Command lines: one that names a model sample file, with or without subsetting, and one
  that names a plain order file and no model sample file.
\<close>

definition model_cli :: "bool \<Rightarrow> cli" where
  "model_cli subsetting =
     \<lparr>cli_gen_in = Some ''in.gen'', cli_gen_out = Some ''out.gen'',
      cli_sample_in = Some ''in.sample'', cli_sample_out = Some ''out.sample'',
      cli_order = None, cli_model_sample = Some ''model.sample'',
      cli_allow_subsetting = subsetting\<rparr>"

definition order_cli :: cli where
  "order_cli =
     \<lparr>cli_gen_in = Some ''in.gen'', cli_gen_out = Some ''out.gen'',
      cli_sample_in = Some ''in.sample'', cli_sample_out = Some ''out.sample'',
      cli_order = Some ''order.txt'', cli_model_sample = None,
      cli_allow_subsetting = False\<rparr>"

section \<open>Joining and splitting\<close>

lemma split_on_nonempty: "split_on c cur s \<noteq> []"
  by (induction s arbitrary: cur) auto

lemma py_join_Cons: "ys \<noteq> [] \<Longrightarrow> py_join sep (x # ys) = x @ sep @ py_join sep ys"
  by (cases ys) auto

lemma py_join_split_on: "py_join [c] (split_on c cur s) = cur @ s"
  by (induction s arbitrary: cur) (auto simp: py_join_Cons split_on_nonempty)

lemma py_join_newlines:
  "xs \<noteq> [] \<Longrightarrow> py_join sep xs @ sep = concat (map (\<lambda>r. r @ sep) xs)"
  by (induction sep xs rule: py_join.induct) auto

section \<open>A batch that passes the checks\<close>

lemma numpy_array_consistent:
  assumes "\<forall>l\<in>set lines. n_columns l = w"
  shows "numpy_array np lines = Inr (map gen_tokens lines)"
proof -
  have "\<not> list_ex (\<lambda>i. length i \<noteq> length (hd (map gen_tokens lines))) (map gen_tokens lines)"
    using assms by (cases lines) (auto simp: list_ex_iff n_columns_def)
  then show ?thesis by (simp add: numpy_array_def Let_def)
qed

lemma read_gen_lines_ok:
  assumes "lines \<noteq> []" "\<forall>l\<in>set lines. n_columns l = w" "w - i_genotypes w = 3 * n"
  shows "read_gen_lines np lines n =
     Inr (map (\<lambda>l. take (i_genotypes w) (gen_tokens l)) lines,
          map (\<lambda>l. reshape_row n (drop (i_genotypes w) (gen_tokens l))) lines)"
proof -
  obtain l ls where L: "lines = l # ls" using assms(1) by (cases lines) auto
  have w: "length (gen_tokens l) = w" using assms(2) L by (simp add: n_columns_def)
  have all: "\<not> list_ex (\<lambda>i. length i \<noteq> w) (map gen_tokens lines)"
    using assms(2) by (auto simp: list_ex_iff n_columns_def)
  have arr: "numpy_array np (l # ls) = Inr (gen_tokens l # map gen_tokens ls)"
    using numpy_array_consistent[OF assms(2), of np] L by simp
  show ?thesis
    using all w assms(3) unfolding read_gen_lines_def L arr
    by (simp add: Let_def o_def)
qed

lemma write_lines_ok:
  assumes "lines \<noteq> []" "\<forall>l\<in>set lines. n_columns l = w" "w - i_genotypes w = 3 * n"
    "\<forall>i\<in>set idx. i < n"
  shows "write_lines np op lines n idx =
     Inr (op @ concat (map (\<lambda>l. op_line n idx l @ [CHR 0x0A]) lines), length lines)"
proof -
  have idx: "\<not> list_ex (\<lambda>i. n \<le> i) idx" using assms(4) by (auto simp: list_ex_iff)
  have rows: "map (py_join '' '')
      (map (\<lambda>(d, g). d @ g)
        (zip (map (\<lambda>l. take (i_genotypes w) (gen_tokens l)) lines)
             (map (\<lambda>g. concat (map (\<lambda>i. g ! i) idx))
                (map (\<lambda>l. reshape_row n (drop (i_genotypes w) (gen_tokens l))) lines))))
     = map (op_line n idx) lines"
    using assms(2) by (induction lines) (auto simp: op_line_def n_columns_def Let_def)
  have ne: "map (op_line n idx) lines \<noteq> []" using assms(1) by simp
  have nl: "py_join [CHR 0x0A] (map (op_line n idx) lines) @ [CHR 0x0A]
      = concat (map (\<lambda>l. op_line n idx l @ [CHR 0x0A]) lines)"
    using py_join_newlines[OF ne, of "[CHR 0x0A]"] by (simp add: o_def)
  show ?thesis
    unfolding write_lines_def read_gen_lines_ok[OF assms(1-3)]
    using idx nl
    by (simp add: rows Let_def del: map_map)
qed

lemma write_output_loop_ok:
  assumes "\<forall>l\<in>set (buf @ ip). n_columns l = w" "w - i_genotypes w = 3 * n"
    "\<forall>i\<in>set idx. i < n" "length buf < MAX_SNPS_IN_BUFFER"
  shows "write_output_loop np op c buf n idx ip =
     (op @ concat (map (\<lambda>l. op_line n idx l @ [CHR 0x0A]) (buf @ ip)), Inr (c + length (buf @ ip)))"
  using assms
proof (induction ip arbitrary: op c buf)
  case Nil
  show ?case
  proof (cases "buf = []")
    case True
    then show ?thesis by simp
  next
    case False
    have "write_lines np op buf n idx =
      Inr (op @ concat (map (\<lambda>l. op_line n idx l @ [CHR 0x0A]) buf), length buf)"
      using write_lines_ok[OF False _ Nil.prems(2,3)] Nil.prems(1) by simp
    then show ?thesis using False by simp
  qed
next
  case (Cons line ip)
  let ?b = "buf @ [line]"
  show ?case
  proof (cases "length ?b = MAX_SNPS_IN_BUFFER")
    case True
    have ne: "?b \<noteq> []" by simp
    have wl: "write_lines np op ?b n idx =
      Inr (op @ concat (map (\<lambda>l. op_line n idx l @ [CHR 0x0A]) ?b), length ?b)"
      using write_lines_ok[OF ne _ Cons.prems(2,3)] Cons.prems(1) by simp
    have ih: "write_output_loop np (op @ concat (map (\<lambda>l. op_line n idx l @ [CHR 0x0A]) ?b))
         (c + length ?b) [] n idx ip =
       ((op @ concat (map (\<lambda>l. op_line n idx l @ [CHR 0x0A]) ?b))
          @ concat (map (\<lambda>l. op_line n idx l @ [CHR 0x0A]) ([] @ ip)),
        Inr ((c + length ?b) + length ([] @ ip)))"
      using Cons.prems by (intro Cons.IH) (auto simp: MAX_SNPS_IN_BUFFER_def)
    show ?thesis using True wl ih by simp
  next
    case False
    have lt: "length ?b < MAX_SNPS_IN_BUFFER" using False Cons.prems(4) by simp
    have "write_output_loop np op c ?b n idx ip =
       (op @ concat (map (\<lambda>l. op_line n idx l @ [CHR 0x0A]) (?b @ ip)), Inr (c + length (?b @ ip)))"
      using Cons.prems lt by (intro Cons.IH) auto
    then show ?thesis using False by simp
  qed
qed

section \<open>A batch that fails a check\<close>

lemma write_lines_fail:
  assumes "lines \<noteq> []" and "\<forall>l\<in>set lines. n_columns l = w"
    and "\<not> (w - i_genotypes w = 3 * n \<and> (\<forall>i\<in>set idx. i < n))"
  shows "write_lines np op lines n idx =
     Inl (if w - i_genotypes w \<noteq> 3 * n then PyTypeError else PyIndexError)"
proof (cases "w - i_genotypes w = 3 * n")
  case True
  then have "list_ex (\<lambda>i. n \<le> i) idx" using assms(3) by (auto simp: list_ex_iff not_less)
  then show ?thesis
    unfolding write_lines_def read_gen_lines_ok[OF assms(1,2) True] using True by simp
next
  case False
  obtain l ls where L: "lines = l # ls" using assms(1) by (cases lines) auto
  have w: "length (gen_tokens l) = w" using assms(2) L by (simp add: n_columns_def)
  have all: "\<not> list_ex (\<lambda>i. length i \<noteq> w) (map gen_tokens lines)"
    using assms(2) by (auto simp: list_ex_iff n_columns_def)
  have arr: "numpy_array np (l # ls) = Inr (gen_tokens l # map gen_tokens ls)"
    using numpy_array_consistent[OF assms(2), of np] L by simp
  have "read_gen_lines np lines n = Inl PyTypeError"
    using all w False unfolding read_gen_lines_def L arr
    by (simp add: Let_def)
  then show ?thesis using False by (simp add: write_lines_def)
qed

lemma write_output_loop_fail:
  assumes "buf @ ip \<noteq> []" and "\<forall>l\<in>set (buf @ ip). n_columns l = w"
    and "\<not> (w - i_genotypes w = 3 * n \<and> (\<forall>i\<in>set idx. i < n))"
    and "length buf < MAX_SNPS_IN_BUFFER"
  shows "write_output_loop np op c buf n idx ip =
     (op, Inl (if w - i_genotypes w \<noteq> 3 * n then PyTypeError else PyIndexError))"
  using assms
proof (induction ip arbitrary: buf)
  case Nil
  then have ne: "buf \<noteq> []" by simp
  show ?case using write_lines_fail[OF ne _ Nil.prems(3), of np op] Nil.prems(2) ne by simp
next
  case (Cons line ip)
  let ?b = "buf @ [line]"
  have ne: "?b \<noteq> []" by simp
  show ?case
  proof (cases "length ?b = MAX_SNPS_IN_BUFFER")
    case True
    have "write_lines np op ?b n idx =
        Inl (if w - i_genotypes w \<noteq> 3 * n then PyTypeError else PyIndexError)"
      using write_lines_fail[OF ne _ Cons.prems(3), of np op] Cons.prems(2) by simp
    then show ?thesis using True by simp
  next
    case False
    have lt: "length ?b < MAX_SNPS_IN_BUFFER" using False Cons.prems(4) by simp
    have "write_output_loop np op c ?b n idx ip =
        (op, Inl (if w - i_genotypes w \<noteq> 3 * n then PyTypeError else PyIndexError))"
      using Cons.prems lt by (intro Cons.IH) auto
    then show ?thesis using False by simp
  qed
qed

section \<open>Reshaping a row\<close>

lemma concat_reshape_take:
  "concat (map (\<lambda>s. take 3 (drop (3 * s) row)) [0..<n]) = take (3 * n) row"
proof (induction n)
  case 0
  show ?case by simp
next
  case (Suc n)
  have "take (3 * Suc n) row = take (3 * n) row @ take 3 (drop (3 * n) row)"
    using take_add[of "3 * n" 3 row] by (simp add: add.commute)
  with Suc show ?case by simp
qed


lemma reshape_row_identity:
  assumes "length row = 3 * n"
  shows "concat (map (\<lambda>i. reshape_row n row ! i) [0..<n]) = row"
proof -
  have len: "length (reshape_row n row) = n" by (simp add: reshape_row_def)
  have "map (\<lambda>i. reshape_row n row ! i) [0..<n] = reshape_row n row"
    using map_nth[of "reshape_row n row"] len by simp
  then have "concat (map (\<lambda>i. reshape_row n row ! i) [0..<n]) = concat (reshape_row n row)"
    by simp
  also have "\<dots> = take (3 * n) row"
    unfolding reshape_row_def by (rule concat_reshape_take)
  finally show ?thesis using assms by simp
qed

lemma op_line_identity:
  assumes "n_columns line - i_genotypes (n_columns line) = 3 * n"
    and "\<forall>t\<in>set (py_split_sep CHR '' '' (py_strip line)). np_cell t = t"
  shows "op_line n [0..<n] line = py_strip line"
proof -
  have toks: "gen_tokens line = py_split_sep CHR '' '' (py_strip line)"
    unfolding gen_tokens_def using assms(2) by (simp add: map_idI)
  have "length (drop (i_genotypes (length (gen_tokens line))) (gen_tokens line)) = 3 * n"
    using assms(1) by (simp add: n_columns_def)
  then have "op_line n [0..<n] line = py_join '' '' (gen_tokens line)"
    unfolding op_line_def Let_def by (simp only: reshape_row_identity append_take_drop_id)
  then show ?thesis
    using py_join_split_on[of "CHR '' ''" "[]" "py_strip line"]
    by (simp add: toks py_split_sep_def)
qed



section \<open>The failure on the row width, batch by batch\<close>

lemma read_gen_lines_inconsistent:
  "(read_gen_lines np lines n = Inl InconsistentRowWidthError)
     = (np = NumpyBefore_1_24 \<and> inconsistent_batch lines)"
proof (cases lines)
  case Nil
  then show ?thesis by (simp add: read_gen_lines_def numpy_array_def inconsistent_batch_def)
next
  case (Cons l ls)
  have r: "list_ex (\<lambda>i. length i \<noteq> length (gen_tokens l)) (map gen_tokens (l # ls))
      = inconsistent_batch (l # ls)"
    by (simp add: inconsistent_batch_def n_columns_def list_ex_iff)
  show ?thesis
  proof (cases "inconsistent_batch (l # ls) \<and> np = NumpyFrom_1_24")
    case True
    then have "numpy_array np (l # ls) = Inl PyValueError"
      using r by (simp add: numpy_array_def Let_def)
    then show ?thesis using True by (simp add: read_gen_lines_def Cons)
  next
    case False
    then have a: "numpy_array np (l # ls) = Inr (gen_tokens l # map gen_tokens ls)"
      using r by (auto simp: numpy_array_def Let_def)
    have "np = NumpyBefore_1_24 \<or> \<not> inconsistent_batch (l # ls)"
      using False by (cases np) auto
    then show ?thesis
      using r unfolding Cons read_gen_lines_def a by (auto simp: Let_def)
  qed
qed

lemma write_lines_inconsistent:
  "(write_lines np op lines n idx = Inl InconsistentRowWidthError)
     = (np = NumpyBefore_1_24 \<and> inconsistent_batch lines)"
  unfolding read_gen_lines_inconsistent[of np lines n, symmetric] write_lines_def
  by (auto simp: Let_def split: sum.splits)

lemma write_lines_isl: "isl (write_lines np op lines n idx) = isl (write_lines np op' lines n idx)"
  unfolding write_lines_def by (auto simp: Let_def split: sum.splits)

lemma write_output_loop_batches:
  "write_output_loop np op c buf n idx ip = run_batches np op c n idx (buffered_batches buf ip)"
proof (induction ip arbitrary: op c buf)
  case Nil
  show ?case by (cases "buf = []") (auto split: sum.splits)
next
  case (Cons line ip)
  show ?case by (auto simp: Cons.IH split: sum.splits)
qed

lemma run_batches_inconsistent:
  "(snd (run_batches np op c n idx bs) = Inl InconsistentRowWidthError) =
   (np = NumpyBefore_1_24 \<and>
    (\<exists>pre b post. bs = pre @ b # post \<and> inconsistent_batch b
      \<and> list_all (\<lambda>p. \<not> isl (write_lines np [] p n idx)) pre))"
proof (induction bs arbitrary: op c)
  case Nil
  show ?case by simp
next
  case (Cons b bs)
  let ?ok = "\<lambda>p. \<not> isl (write_lines np [] p n idx)"
  let ?old = "np = NumpyBefore_1_24"
  show ?case
  proof (cases "write_lines np op b n idx")
    case (Inl e)
    have bad: "isl (write_lines np [] b n idx)"
      using write_lines_isl[of np "[]" b n idx op] Inl by simp
    have "(e = InconsistentRowWidthError) = (?old \<and> inconsistent_batch b)"
      using write_lines_inconsistent[of np op b n idx] Inl by simp
    then have l: "(snd (run_batches np op c n idx (b # bs)) = Inl InconsistentRowWidthError)
        = (?old \<and> inconsistent_batch b)"
      using Inl by simp
    have r: "(\<exists>pre b' post. b # bs = pre @ b' # post \<and> inconsistent_batch b' \<and> list_all ?ok pre)
        = inconsistent_batch b"
    proof
      assume "\<exists>pre b' post. b # bs = pre @ b' # post \<and> inconsistent_batch b' \<and> list_all ?ok pre"
      then obtain pre b' post where eq: "b # bs = pre @ b' # post" and inc: "inconsistent_batch b'"
        and pre: "list_all ?ok pre" by blast
      show "inconsistent_batch b"
      proof (cases pre)
        case Nil
        then show ?thesis using eq inc by simp
      next
        case (Cons p ps)
        then have "p = b" using eq by simp
        then show ?thesis using pre Cons bad by simp
      qed
    next
      assume "inconsistent_batch b"
      then have "b # bs = [] @ b # bs \<and> inconsistent_batch b \<and> list_all ?ok []" by simp
      then show "\<exists>pre b' post. b # bs = pre @ b' # post \<and> inconsistent_batch b' \<and> list_all ?ok pre"
        by blast
    qed
    show ?thesis unfolding l r ..
  next
    case (Inr r)
    obtain op' k where r: "r = (op', k)" by (cases r)
    have ok: "?ok b"
      using write_lines_isl[of np "[]" b n idx op] Inr by simp
    have cons: "\<not> (?old \<and> inconsistent_batch b)"
      using write_lines_inconsistent[of np op b n idx] Inr by simp
    have l: "(snd (run_batches np op c n idx (b # bs)) = Inl InconsistentRowWidthError)
        = (?old \<and> (\<exists>pre b' post. bs = pre @ b' # post \<and> inconsistent_batch b' \<and> list_all ?ok pre))"
      using Inr r Cons.IH[of op' "c + k"] by simp
    have r: "(?old \<and> (\<exists>pre b' post. b # bs = pre @ b' # post \<and> inconsistent_batch b'
            \<and> list_all ?ok pre))
        = (?old \<and> (\<exists>pre b' post. bs = pre @ b' # post \<and> inconsistent_batch b' \<and> list_all ?ok pre))"
    proof
      assume a: "?old \<and> (\<exists>pre b' post. b # bs = pre @ b' # post \<and> inconsistent_batch b'
            \<and> list_all ?ok pre)"
      then obtain pre b' post where eq: "b # bs = pre @ b' # post" and inc: "inconsistent_batch b'"
        and pre: "list_all ?ok pre" by blast
      have "\<exists>pre b' post. bs = pre @ b' # post \<and> inconsistent_batch b' \<and> list_all ?ok pre"
      proof (cases pre)
        case Nil
        then show ?thesis using eq inc cons a by simp
      next
        case (Cons p ps)
        then have "bs = ps @ b' # post" and "list_all ?ok ps"
          using eq pre by simp_all
        then show ?thesis using inc by blast
      qed
      then show "?old \<and> (\<exists>pre b' post. bs = pre @ b' # post \<and> inconsistent_batch b'
            \<and> list_all ?ok pre)" using a by simp
    next
      assume a: "?old \<and> (\<exists>pre b' post. bs = pre @ b' # post \<and> inconsistent_batch b'
            \<and> list_all ?ok pre)"
      then obtain pre b' post where eq: "bs = pre @ b' # post" and inc: "inconsistent_batch b'"
        and pre: "list_all ?ok pre" by blast
      have "b # bs = (b # pre) @ b' # post \<and> inconsistent_batch b' \<and> list_all ?ok (b # pre)"
        using eq inc pre ok by simp
      then have "\<exists>pre b' post. b # bs = pre @ b' # post \<and> inconsistent_batch b'
            \<and> list_all ?ok pre" by blast
      then show "?old \<and> (\<exists>pre b' post. b # bs = pre @ b' # post \<and> inconsistent_batch b'
            \<and> list_all ?ok pre)" using a by simp
    qed
    show ?thesis unfolding l r ..
  qed
qed

section \<open>Repeated identifiers\<close>

lemma distinct_count_list: "distinct xs = (\<not> (\<exists>x. 1 < count_list xs x))"
proof (induction xs)
  case Nil
  show ?case by simp
next
  case (Cons a xs)
  show ?case
  proof (cases "a \<in> set xs")
    case True
    then have "count_list xs a \<noteq> 0" by (simp add: count_list_0_iff)
    then have "1 < count_list (a # xs) a" by simp
    then have "\<exists>x. 1 < count_list (a # xs) x" ..
    then show ?thesis using True by simp
  next
    case False
    then have a0: "count_list xs a = 0" by simp
    have "(\<exists>x. 1 < count_list (a # xs) x) = (\<exists>x. 1 < count_list xs x)"
    proof
      assume "\<exists>x. 1 < count_list (a # xs) x"
      then obtain x where x: "1 < count_list (a # xs) x" ..
      then have "x \<noteq> a" using a0 by auto
      then have "1 < count_list xs x" using x by simp
      then show "\<exists>x. 1 < count_list xs x" ..
    next
      assume "\<exists>x. 1 < count_list xs x"
      then obtain x where x: "1 < count_list xs x" ..
      then have "x \<noteq> a" using a0 by auto
      then have "1 < count_list (a # xs) x" using x by simp
      then show "\<exists>x. 1 < count_list (a # xs) x" ..
    qed
    then show ?thesis using False Cons.IH by simp
  qed
qed

section \<open>The index array has no gaps\<close>

lemma fill_index_array_Inr:
  assumes "fill_index_array kvs arr = Inr arr'"
  shows "length arr' = length arr \<and> fst ` set kvs \<subseteq> {..<length arr}
       \<and> (\<forall>i<length arr. arr ! i \<noteq> None \<or> i \<in> fst ` set kvs \<longrightarrow> arr' ! i \<noteq> None)"
  using assms
proof (induction kvs arr rule: fill_index_array.induct)
  case (1 index_array)
  then show ?case by simp
next
  case (2 new_index old_index rest index_array)
  from "2.prems" have lt: "new_index < length index_array"
    and rec: "fill_index_array rest (index_array[new_index := Some old_index]) = Inr arr'"
    by (simp_all split: if_splits)
  from "2.IH"[OF lt rec]
  have len: "length arr' = length index_array"
    and keys: "fst ` set rest \<subseteq> {..<length index_array}"
    and some: "\<forall>i<length index_array.
        (index_array[new_index := Some old_index]) ! i \<noteq> None \<or> i \<in> fst ` set rest
          \<longrightarrow> arr' ! i \<noteq> None"
    by simp_all
  have "\<forall>i<length index_array.
      index_array ! i \<noteq> None \<or> i \<in> fst ` set ((new_index, old_index) # rest) \<longrightarrow> arr' ! i \<noteq> None"
  proof (intro allI impI)
    fix i assume i: "i < length index_array"
      and h: "index_array ! i \<noteq> None \<or> i \<in> fst ` set ((new_index, old_index) # rest)"
    have "(index_array[new_index := Some old_index]) ! i \<noteq> None \<or> i \<in> fst ` set rest"
      using h i by (cases "i = new_index") auto
    then show "arr' ! i \<noteq> None" using some i by blast
  qed
  then show ?case using len keys lt by simp
qed

lemma fold_update_distinct:
  "distinct (map fst acc) \<Longrightarrow>
   distinct (map fst (fold (\<lambda>(i_old, i_new) d. AList.update i_new i_old d) xs acc))"
  by (induction xs arbitrary: acc) (auto simp: distinct_update)

lemma new_to_old_index_distinct: "distinct (map fst (new_to_old_index old_to_new))"
  unfolding new_to_old_index_def by (rule fold_update_distinct) simp

lemma fill_index_array_Inl: "fill_index_array kvs arr = Inl e \<Longrightarrow> e = PyIndexError"
  by (induction kvs arr rule: fill_index_array.induct) (auto split: if_splits)

lemma index_array_of_complete:
  "index_array_of old_to_new \<noteq> Inl IncompletePermutationError"
proof (cases "fill_index_array (new_to_old_index old_to_new)
                (replicate (length (new_to_old_index old_to_new)) None)")
  case (Inl e)
  then show ?thesis
    using fill_index_array_Inl[OF Inl] by (simp add: index_array_of_def Let_def)
next
  case (Inr arr')
  let ?nto = "new_to_old_index old_to_new"
  let ?n = "length ?nto"
  from fill_index_array_Inr[OF Inr]
  have len: "length arr' = ?n" and keys: "fst ` set ?nto \<subseteq> {..<?n}"
    and some: "\<forall>i<?n. i \<in> fst ` set ?nto \<longrightarrow> arr' ! i \<noteq> None"
    by simp_all
  have "card (fst ` set ?nto) = ?n"
    using distinct_card[OF new_to_old_index_distinct[of old_to_new]] by simp
  then have "fst ` set ?nto = {..<?n}"
    using keys by (intro card_subset_eq) simp_all
  then have "\<forall>i<?n. arr' ! i \<noteq> None" using some by simp
  then have "None \<notin> set arr'" using len by (auto simp: in_set_conv_nth)
  then show ?thesis using Inr by (simp add: index_array_of_def Let_def)
qed

lemma index_resolver_three:
  assumes "distinct [a, b, c]"
  shows "index_resolver options [a, b, c] [c, a, b] fname = Inr [2, 0, 1]"
proof -
  from assms have ne: "a \<noteq> b" "a \<noteq> c" "b \<noteq> c" "b \<noteq> a" "c \<noteq> a" "c \<noteq> b" by auto
  have d: "new_sample_dict [c, a, b] = [(c, 0), (a, 1), (b, 2)]"
    using ne by (simp add: new_sample_dict_def enumerate_eq_zip upt_rec)
  have "List.enumerate 0 [a, b, c] = [(0, a), (1, b), (2, c)]"
    by (simp add: enumerate_eq_zip upt_rec)
  then have o: "old_to_new_index options [a, b, c] [c, a, b] fname = Inr [(0, 1), (1, 2), (2, 0)]"
    using ne by (simp add: old_to_new_index_def d)
  have "index_array_of [(0, 1), (1, 2), (2, 0)] = Inr [2, 0, 1]"
    by code_simp
  then show ?thesis by (simp add: index_resolver_def o)
qed

lemma numpy_array_Inl: "numpy_array np lines = Inl e \<Longrightarrow> e = PyValueError"
  by (simp add: numpy_array_def Let_def split: if_splits)

lemma read_gen_lines_no_mismatch_message:
  "read_gen_lines np lines n_samples \<noteq> Inl (GenotypeCountMismatchError d k)"
  unfolding read_gen_lines_def
  by (auto simp: Let_def dest: numpy_array_Inl split: sum.splits list.splits)

section \<open>The example inputs evaluated\<close>

lemma seven_lines_columns: "\<forall>l\<in>set seven_lines. n_columns l = 11"
proof -
  have "list_all (\<lambda>l. n_columns l = 11) seven_lines"
    unfolding seven_lines_def by code_simp
  then show ?thesis by (simp add: list_all_iff)
qed

lemma seven_lines_one_batch: "write_lines np [] seven_lines 2 [1, 0] = Inr
       (''1 rs1 10 A C 0 1 0 1 0 0\<newline>1 rs2 20 A G 0 0 1 0 1 0\<newline>1 rs3 30 C G 1 0 0 0 0 1\<newline>1 rs4 40 C T 0 0 1 1 0 0\<newline>1 rs5 50 G T 1 0 0 0 1 0\<newline>1 rs6 60 A T 0 1 0 0 0 1\<newline>1 rs7 70 T A 0.1 0.2 0.7 0.5 0.5 0\<newline>'', 7)"
proof (cases np)
  case NumpyBefore_1_24
  show ?thesis unfolding NumpyBefore_1_24 seven_lines_def by code_simp
next
  case NumpyFrom_1_24
  show ?thesis unfolding NumpyFrom_1_24 seven_lines_def by code_simp
qed

section \<open>Properties\<close>

text \<open>
  C10. For an empty input line stream the stream driver returns 0 and leaves the output
  stream as it was: nothing is written, not even a newline.
\<close>

theorem write_output_empty_stream:
  "write_output np [] op n_samples_input index_array = (op, Inr 0)"
  by (simp add: write_output_def)

text \<open>
  C2. For every sequence of at least one input line in which all lines have one column
  count, and every sample count and index array: the stream driver, which works in
  batches of \<open>MAX_SNPS_IN_BUFFER\<close> lines, ends as one call of \<open>_write_lines\<close> on all
  the lines does, with the same text on the output stream and the same result. When the
  rows have as many genotype columns as three times the sample count and the entries of
  the index array are below the sample count, that result is the number of input lines.
  Any length from a single line on is covered, below, at and above the batch size. The
  driver never hands on an empty batch, so the sequence is not empty.
\<close>

theorem batches_equal_single_batch:
  assumes "ip \<noteq> []" and "\<forall>l\<in>set ip. n_columns l = w"
  shows "write_output np ip op n_samples_input index_array =
           (case write_lines np op ip n_samples_input index_array of
              Inl e \<Rightarrow> (op, Inl e) | Inr (out, k) \<Rightarrow> (out, Inr k))
       \<and> (w - i_genotypes w = 3 * n_samples_input \<and> (\<forall>i\<in>set index_array. i < n_samples_input)
            \<longrightarrow> (\<exists>out. write_lines np op ip n_samples_input index_array = Inr (out, length ip)))"
proof (cases "w - i_genotypes w = 3 * n_samples_input \<and> (\<forall>i\<in>set index_array. i < n_samples_input)")
  case True
  then have g: "w - i_genotypes w = 3 * n_samples_input"
    and v: "\<forall>i\<in>set index_array. i < n_samples_input" by simp_all
  let ?out = "op @ concat (map (\<lambda>l. op_line n_samples_input index_array l @ [CHR 0x0A]) ip)"
  have "write_output np ip op n_samples_input index_array = (?out, Inr (length ip))"
    unfolding write_output_def
    using write_output_loop_ok[of "[]" ip w n_samples_input index_array np op 0] assms g v
    by (simp add: MAX_SNPS_IN_BUFFER_def)
  moreover have "write_lines np op ip n_samples_input index_array = Inr (?out, length ip)"
    using write_lines_ok[OF assms g v] .
  ultimately show ?thesis by simp
next
  case False
  have "write_output np ip op n_samples_input index_array =
      (op, Inl (if w - i_genotypes w \<noteq> 3 * n_samples_input then PyTypeError else PyIndexError))"
    unfolding write_output_def
    using write_output_loop_fail[of "[]" ip w n_samples_input index_array np op 0] assms False
    by (simp add: MAX_SNPS_IN_BUFFER_def)
  moreover have "write_lines np op ip n_samples_input index_array =
      Inl (if w - i_genotypes w \<noteq> 3 * n_samples_input then PyTypeError else PyIndexError)"
    using write_lines_fail[OF assms False] .
  ultimately show ?thesis using False by simp
qed

theorem batches_equal_single_batch_witness:
  "\<forall>np. write_output np seven_lines [] 2 [1, 0] =
     (''1 rs1 10 A C 0 1 0 1 0 0\<newline>1 rs2 20 A G 0 0 1 0 1 0\<newline>1 rs3 30 C G 1 0 0 0 0 1\<newline>1 rs4 40 C T 0 0 1 1 0 0\<newline>1 rs5 50 G T 1 0 0 0 1 0\<newline>1 rs6 60 A T 0 1 0 0 0 1\<newline>1 rs7 70 T A 0.1 0.2 0.7 0.5 0.5 0\<newline>'', Inr 7)
   \<and> length seven_lines = MAX_SNPS_IN_BUFFER + 1"
proof
  fix np
  have ne: "seven_lines \<noteq> []" by (simp add: seven_lines_def)
  have w: "11 - i_genotypes 11 = 3 * (2::nat)" by (simp add: i_genotypes_def)
  have idx: "\<forall>i\<in>set [1, 0::nat]. i < 2" by simp
  note both = batches_equal_single_batch[OF ne seven_lines_columns, of np "[]" 2 "[1, 0]"]
  from both w idx obtain out where
    one: "write_lines np [] seven_lines 2 [1, 0] = Inr (out, length seven_lines)" by blast
  from both have "write_output np seven_lines [] 2 [1, 0] =
      (case write_lines np [] seven_lines 2 [1, 0] of
         Inl e \<Rightarrow> ([], Inl e) | Inr (out, k) \<Rightarrow> (out, Inr k))" by blast
  then have "write_output np seven_lines [] 2 [1, 0] = (out, Inr (length seven_lines))"
    unfolding one by simp
  moreover have "out =
      ''1 rs1 10 A C 0 1 0 1 0 0\<newline>1 rs2 20 A G 0 0 1 0 1 0\<newline>1 rs3 30 C G 1 0 0 0 0 1\<newline>1 rs4 40 C T 0 0 1 1 0 0\<newline>1 rs5 50 G T 1 0 0 0 1 0\<newline>1 rs6 60 A T 0 1 0 0 0 1\<newline>1 rs7 70 T A 0.1 0.2 0.7 0.5 0.5 0\<newline>''"
    using one unfolding seven_lines_one_batch by simp
  moreover have "length seven_lines = 7" by (simp add: seven_lines_def)
  ultimately show "write_output np seven_lines [] 2 [1, 0] =
     (''1 rs1 10 A C 0 1 0 1 0 0\<newline>1 rs2 20 A G 0 0 1 0 1 0\<newline>1 rs3 30 C G 1 0 0 0 0 1\<newline>1 rs4 40 C T 0 0 1 1 0 0\<newline>1 rs5 50 G T 1 0 0 0 1 0\<newline>1 rs6 60 A T 0 1 0 0 0 1\<newline>1 rs7 70 T A 0.1 0.2 0.7 0.5 0.5 0\<newline>'', Inr 7)
   \<and> length seven_lines = MAX_SNPS_IN_BUFFER + 1"
    by (simp add: MAX_SNPS_IN_BUFFER_def)
qed

text \<open>
  C3. For every batch of rows split on single spaces that pass the parser's checks (one
  column count, with as many genotype columns as three times the sample count) and whose
  fields do not end in NUL characters, which a numpy string cell cannot hold: reordering
  with the identity index array writes each input line as it was, stripped of the
  whitespace around it and ended by a newline. Every descriptor column and every genotype
  value, and the single spaces between them, are unchanged.
\<close>

theorem identity_permutation_unchanged:
  assumes "lines \<noteq> []" and "\<forall>l\<in>set lines. n_columns l = w"
    and "w - i_genotypes w = 3 * n_samples_input"
    and "\<forall>l\<in>set lines. \<forall>t\<in>set (py_split_sep CHR '' '' (py_strip l)). np_cell t = t"
  shows "write_lines np op lines n_samples_input [0..<n_samples_input] =
           Inr (op @ concat (map (\<lambda>l. py_strip l @ ''\<newline>'') lines), length lines)"
proof -
  have idx: "\<forall>i\<in>set [0..<n_samples_input]. i < n_samples_input" by simp
  have "map (\<lambda>l. op_line n_samples_input [0..<n_samples_input] l @ [CHR 0x0A]) lines
      = map (\<lambda>l. py_strip l @ [CHR 0x0A]) lines"
    using assms(2,3,4) by (intro map_cong) (auto simp: op_line_identity)
  then show ?thesis
    using write_lines_ok[OF assms(1,2,3) idx, of np op] by (simp only:)
qed

theorem identity_permutation_unchanged_witness:
  "\<forall>np. write_lines np [] two_lines 2 [0, 1] =
     Inr (''1 rs1 10 A C 1 0 0 0 1 0\<newline>1 rs7 70 T A 0.5 0.5 0 0.1 0.2 0.7\<newline>'', 2)"
proof
  fix np
  have ne: "two_lines \<noteq> []" by (simp add: two_lines_def)
  have "list_all (\<lambda>l. n_columns l = 11) two_lines" unfolding two_lines_def by code_simp
  then have cols: "\<forall>l\<in>set two_lines. n_columns l = 11" by (simp add: list_all_iff)
  have w: "11 - i_genotypes 11 = 3 * (2::nat)" by (simp add: i_genotypes_def)
  have "list_all (\<lambda>l. list_all (\<lambda>t. np_cell t = t) (py_split_sep CHR '' '' (py_strip l))) two_lines"
    unfolding two_lines_def by code_simp
  then have nul: "\<forall>l\<in>set two_lines. \<forall>t\<in>set (py_split_sep CHR '' '' (py_strip l)). np_cell t = t"
    by (simp add: list_all_iff)
  have strip: "concat (map (\<lambda>l. py_strip l @ ''\<newline>'') two_lines) =
      ''1 rs1 10 A C 1 0 0 0 1 0\<newline>1 rs7 70 T A 0.5 0.5 0 0.1 0.2 0.7\<newline>''"
    unfolding two_lines_def by code_simp
  have upt: "[0..<2] = [0, 1::nat]" by (simp add: upt_rec)
  show "write_lines np [] two_lines 2 [0, 1] =
     Inr (''1 rs1 10 A C 1 0 0 0 1 0\<newline>1 rs7 70 T A 0.5 0.5 0 0.1 0.2 0.7\<newline>'', 2)"
    using identity_permutation_unchanged[OF ne cols w nul, of np "[]"] strip upt
    by (simp add: two_lines_def)
qed



text \<open>
  C9. The failure on the row width. With a numpy before 1.24 the parser stops with it
  exactly when some row of the batch it is given has a column count different from the
  first row of that batch, and a run of the stream driver stops with it exactly when some
  batch has such a row and every batch before it was written. From numpy 1.24 on the
  parser never stops with it: building the array of such a batch raises \<open>ValueError\<close>
  before the row lengths are tested. With either numpy, batches that are each consistent
  are written whatever their column counts are: rows of eight columns (descriptor width
  5) in one batch and of nine (descriptor width 6) in the next.
\<close>

theorem inconsistent_row_width_per_batch:
  "((read_gen_lines np lines n_samples = Inl InconsistentRowWidthError)
      = (np = NumpyBefore_1_24 \<and> inconsistent_batch lines))
   \<and> ((snd (write_output np ip op n_samples_input index_array) = Inl InconsistentRowWidthError)
      = (np = NumpyBefore_1_24 \<and>
         (\<exists>pre b post. buffered_batches [] ip = pre @ b # post \<and> inconsistent_batch b
            \<and> list_all (\<lambda>p. \<not> isl (write_lines np [] p n_samples_input index_array)) pre)))
   \<and> inconsistent_batch ragged_lines
   \<and> read_gen_lines NumpyFrom_1_24 ragged_lines 1 = Inl PyValueError
   \<and> write_output NumpyFrom_1_24 ragged_lines [] 1 [0] = ([], Inl PyValueError)
   \<and> read_gen_lines NumpyBefore_1_24 ragged_lines 1 = Inl InconsistentRowWidthError
   \<and> write_output NumpyBefore_1_24 ragged_lines [] 1 [0] = ([], Inl InconsistentRowWidthError)
   \<and> map (map n_columns) (buffered_batches [] mixed_width_lines) = [[8, 8, 8, 8, 8, 8], [9]]
   \<and> write_output np mixed_width_lines [] 1 [0] =
       (''rs1 10 1 A C 1 0 0\<newline>rs2 20 2 A G 0 1 0\<newline>rs3 30 3 C G 0 0 1\<newline>rs4 40 4 C T 1 0 0\<newline>rs5 50 5 G T 0 1 0\<newline>rs6 60 6 A T 0 0 1\<newline>01 rs7 70 7 T A 0.5 0.5 0\<newline>'', Inr 7)"
proof -
  have run: "(snd (write_output np ip op n_samples_input index_array) = Inl InconsistentRowWidthError)
      = (np = NumpyBefore_1_24 \<and>
         (\<exists>pre b post. buffered_batches [] ip = pre @ b # post \<and> inconsistent_batch b
            \<and> list_all (\<lambda>p. \<not> isl (write_lines np [] p n_samples_input index_array)) pre))"
    unfolding write_output_def write_output_loop_batches by (rule run_batches_inconsistent)
  have inc: "inconsistent_batch ragged_lines"
    unfolding ragged_lines_def by code_simp
  have a: "read_gen_lines NumpyFrom_1_24 ragged_lines 1 = Inl PyValueError"
    unfolding ragged_lines_def by code_simp
  have b: "write_output NumpyFrom_1_24 ragged_lines [] 1 [0] = ([], Inl PyValueError)"
    unfolding ragged_lines_def by code_simp
  have c: "read_gen_lines NumpyBefore_1_24 ragged_lines 1 = Inl InconsistentRowWidthError"
    unfolding ragged_lines_def by code_simp
  have d: "write_output NumpyBefore_1_24 ragged_lines [] 1 [0] = ([], Inl InconsistentRowWidthError)"
    unfolding ragged_lines_def by code_simp
  have cols: "map (map n_columns) (buffered_batches [] mixed_width_lines) = [[8, 8, 8, 8, 8, 8], [9]]"
    unfolding mixed_width_lines_def by code_simp
  have m: "write_output np mixed_width_lines [] 1 [0] =
       (''rs1 10 1 A C 1 0 0\<newline>rs2 20 2 A G 0 1 0\<newline>rs3 30 3 C G 0 0 1\<newline>rs4 40 4 C T 1 0 0\<newline>rs5 50 5 G T 0 1 0\<newline>rs6 60 6 A T 0 0 1\<newline>01 rs7 70 7 T A 0.5 0.5 0\<newline>'', Inr 7)"
  proof (cases np)
    case NumpyBefore_1_24
    show ?thesis unfolding NumpyBefore_1_24 mixed_width_lines_def by code_simp
  next
    case NumpyFrom_1_24
    show ?thesis unfolding NumpyFrom_1_24 mixed_width_lines_def by code_simp
  qed
  show ?thesis using read_gen_lines_inconsistent run inc a b c d cols m by blast
qed

text \<open>
  C8. Reading the sample order of a file that exists stops with the failure on duplicates
  (naming the file) if and only if some identifier occurs more than once in the
  identifier sequence of the file, taken after the two header lines when the file is a
  sample file; otherwise it returns that sequence, in file order.
\<close>

theorem read_sample_order_duplicates:
  assumes "fs f = Some file_lines"
  shows "((read_sample_order fs (PyStr f) is_sample_file = Inl (DuplicateIdentifierError f))
            = (\<exists>x. 1 < count_list (identifiers is_sample_file file_lines) x))
       \<and> ((\<not> (\<exists>x. 1 < count_list (identifiers is_sample_file file_lines) x)) \<longrightarrow>
            read_sample_order fs (PyStr f) is_sample_file = Inr (identifiers is_sample_file file_lines))"
proof -
  let ?ids = "identifiers is_sample_file file_lines"
  have ids: "(if is_sample_file then drop 2 (map sample_id file_lines) else map sample_id file_lines) = ?ids"
    by (simp add: identifiers_def drop_map)
  have len: "(length (remdups ?ids) \<noteq> length ?ids) = (\<exists>x. 1 < count_list ?ids x)"
    using distinct_count_list[of ?ids] length_remdups_eq[of ?ids] remdups_id_iff_distinct[of ?ids]
    by blast
  have "read_sample_order fs (PyStr f) is_sample_file =
     (if \<exists>x. 1 < count_list ?ids x then Inl (DuplicateIdentifierError f) else Inr ?ids)"
    unfolding read_sample_order_def open_read_def using assms len
    by (simp add: Let_def ids py_str_def)
  then show ?thesis by simp
qed

theorem read_sample_order_duplicates_witness:
  "read_sample_order sample_fs (PyStr ''model.sample'') True = Inr [''fC C'', ''fA A'', ''fB B'']
   \<and> read_sample_order sample_fs (PyStr ''order.txt'') False = Inr [''fC C'', ''fA A'', ''fB B'']
   \<and> read_sample_order sample_fs (PyStr ''twice.txt'') False = Inl (DuplicateIdentifierError ''twice.txt'')
   \<and> count_list (identifiers False [''fC C\<newline>'', ''fA A\<newline>'', ''fC  C 1\<newline>'']) ''fC C'' = 2"
proof -
  have f1: "sample_fs ''model.sample'' =
      Some [''ID_1 ID_2 missing\<newline>'', ''0 0 0\<newline>'', ''fC  C 0\<newline>'', ''fA A 0\<newline>'', ''fB'' @ [CHR 0x09] @ ''B 1\<newline>'']"
    by (simp add: sample_fs_def)
  have f2: "sample_fs ''order.txt'' = Some [''fC C\<newline>'', ''fA A\<newline>'', ''fB B\<newline>'']"
    by (simp add: sample_fs_def)
  have f3: "sample_fs ''twice.txt'' = Some [''fC C\<newline>'', ''fA A\<newline>'', ''fC  C 1\<newline>'']"
    by (simp add: sample_fs_def)
  have i1: "identifiers True [''ID_1 ID_2 missing\<newline>'', ''0 0 0\<newline>'', ''fC  C 0\<newline>'', ''fA A 0\<newline>'', ''fB'' @ [CHR 0x09] @ ''B 1\<newline>'']
      = [''fC C'', ''fA A'', ''fB B'']" by code_simp
  have i2: "identifiers False [''fC C\<newline>'', ''fA A\<newline>'', ''fB B\<newline>''] = [''fC C'', ''fA A'', ''fB B'']"
    by code_simp
  have i3: "identifiers False [''fC C\<newline>'', ''fA A\<newline>'', ''fC  C 1\<newline>''] = [''fC C'', ''fA A'', ''fC C'']"
    by code_simp
  have d: "\<not> (\<exists>x. 1 < count_list [''fC C'', ''fA A'', ''fB B''] x)"
    using distinct_count_list[of "[''fC C'', ''fA A'', ''fB B'']"] by simp
  have c: "count_list [''fC C'', ''fA A'', ''fC C''] ''fC C'' = 2" by simp
  then have e: "\<exists>x. 1 < count_list [''fC C'', ''fA A'', ''fC C''] x"
    by (intro exI[of _ "''fC C''"]) simp
  note t1 = read_sample_order_duplicates[of sample_fs "''model.sample''" _ True, OF f1, unfolded i1]
  note t2 = read_sample_order_duplicates[of sample_fs "''order.txt''" _ False, OF f2, unfolded i2]
  note t3 = read_sample_order_duplicates[of sample_fs "''twice.txt''" _ False, OF f3, unfolded i3]
  have r1: "read_sample_order sample_fs (PyStr ''model.sample'') True = Inr [''fC C'', ''fA A'', ''fB B'']"
    using t1 d by blast
  have r2: "read_sample_order sample_fs (PyStr ''order.txt'') False = Inr [''fC C'', ''fA A'', ''fB B'']"
    using t2 d by blast
  have r3: "read_sample_order sample_fs (PyStr ''twice.txt'') False = Inl (DuplicateIdentifierError ''twice.txt'')"
    using t3 e by blast
  show ?thesis using r1 r2 r3 c unfolding i3 by blast
qed

text \<open>
  C1. For an input sample order \<open>[a, b, c]\<close> of three different identifiers and the target
  order \<open>[c, a, b]\<close>, the index array is \<open>[2, 0, 1]\<close>: new position 0 takes old position
  2, new position 1 old position 0 and new position 2 old position 1. No sample is
  unmatched, so this holds whatever the options are, with subsetting disallowed in
  particular. Applied to a row of five descriptor columns and three triplets, it writes
  the descriptors unchanged, then the triplet of \<open>c\<close>, of \<open>a\<close> and of \<open>b\<close>.
\<close>

theorem reorder_three_samples:
  assumes "distinct [a, b, c]"
    and "gen_tokens line = ds @ ta @ tb @ tc"
    and "length ds = 5" and "length ta = 3" and "length tb = 3" and "length tc = 3"
  shows "index_resolver options [a, b, c] [c, a, b] fname = Inr [2, 0, 1]
       \<and> write_lines np op [line] 3 [2, 0, 1] =
           Inr (op @ py_join '' '' (ds @ tc @ ta @ tb) @ ''\<newline>'', 1)"
proof -
  have cols: "\<forall>l\<in>set [line]. n_columns l = 14"
    using assms(2-6) by (simp add: n_columns_def)
  have w: "14 - i_genotypes 14 = 3 * (3::nat)" by (simp add: i_genotypes_def)
  have idx: "\<forall>i\<in>set [2, 0, 1::nat]. i < 3" by simp
  have r: "reshape_row 3 (ta @ tb @ tc) = [ta, tb, tc]"
    using assms(4-6) by (simp add: reshape_row_def upt_rec)
  have "op_line 3 [2, 0, 1] line = py_join '' '' (ds @ tc @ ta @ tb)"
    using assms(2-6) by (simp add: op_line_def Let_def i_genotypes_def r)
  then have "write_lines np op [line] 3 [2, 0, 1] =
           Inr (op @ py_join '' '' (ds @ tc @ ta @ tb) @ ''\<newline>'', 1)"
    using write_lines_ok[OF _ cols w idx, of np op] by simp
  then show ?thesis using index_resolver_three[OF assms(1)] by simp
qed

theorem reorder_three_samples_witness:
  "\<forall>np.
     index_resolver (parse_options (model_cli False)) [''fA A'', ''fB B'', ''fC C''] [''fC C'', ''fA A'', ''fB B'']
       ''model.sample'' = Inr [2, 0, 1]
   \<and> write_lines np [] [''rsX 1 2 3 4 0.1 0.2 0.7 0.3 0.3 0.4 0.5 0.3 0.2\<newline>''] 3 [2, 0, 1] =
       Inr (''rsX 1 2 3 4 0.5 0.3 0.2 0.1 0.2 0.7 0.3 0.3 0.4\<newline>'', 1)
   \<and> main np (parse_options (model_cli False)) sample_fs example_writable
         [''rsX 1 2 3 4 0.1 0.2 0.7 0.3 0.3 0.4 0.5 0.3 0.2\<newline>''] =
       Inr \<lparr>sample_out_text = ''ID_1 ID_2 missing\<newline>0 0 0\<newline>fC C 0\<newline>fA A 0\<newline>fB B 0\<newline>'',
            gen_out_text = ''rsX 1 2 3 4 0.5 0.3 0.2 0.1 0.2 0.7 0.3 0.3 0.4\<newline>'',
            n_samples_written = 3, n_lines_written = 1\<rparr>"
proof
  fix np
  have d: "distinct [''fA A'', ''fB B'', ''fC C'']" by simp
  have t: "gen_tokens ''rsX 1 2 3 4 0.1 0.2 0.7 0.3 0.3 0.4 0.5 0.3 0.2\<newline>'' =
      [''rsX'', ''1'', ''2'', ''3'', ''4''] @ [''0.1'', ''0.2'', ''0.7''] @ [''0.3'', ''0.3'', ''0.4'']
        @ [''0.5'', ''0.3'', ''0.2'']"
    by code_simp
  have j: "py_join '' '' ([''rsX'', ''1'', ''2'', ''3'', ''4''] @ [''0.5'', ''0.3'', ''0.2'']
        @ [''0.1'', ''0.2'', ''0.7''] @ [''0.3'', ''0.3'', ''0.4''])
      = ''rsX 1 2 3 4 0.5 0.3 0.2 0.1 0.2 0.7 0.3 0.3 0.4''"
    by code_simp
  have m: "main np (parse_options (model_cli False)) sample_fs example_writable
         [''rsX 1 2 3 4 0.1 0.2 0.7 0.3 0.3 0.4 0.5 0.3 0.2\<newline>''] =
       Inr \<lparr>sample_out_text = ''ID_1 ID_2 missing\<newline>0 0 0\<newline>fC C 0\<newline>fA A 0\<newline>fB B 0\<newline>'',
            gen_out_text = ''rsX 1 2 3 4 0.5 0.3 0.2 0.1 0.2 0.7 0.3 0.3 0.4\<newline>'',
            n_samples_written = 3, n_lines_written = 1\<rparr>"
  proof (cases np)
    case NumpyBefore_1_24
    show ?thesis unfolding NumpyBefore_1_24 model_cli_def sample_fs_def by code_simp
  next
    case NumpyFrom_1_24
    show ?thesis unfolding NumpyFrom_1_24 model_cli_def sample_fs_def by code_simp
  qed
  show "index_resolver (parse_options (model_cli False)) [''fA A'', ''fB B'', ''fC C''] [''fC C'', ''fA A'', ''fB B'']
       ''model.sample'' = Inr [2, 0, 1]
   \<and> write_lines np [] [''rsX 1 2 3 4 0.1 0.2 0.7 0.3 0.3 0.4 0.5 0.3 0.2\<newline>''] 3 [2, 0, 1] =
       Inr (''rsX 1 2 3 4 0.5 0.3 0.2 0.1 0.2 0.7 0.3 0.3 0.4\<newline>'', 1)
   \<and> main np (parse_options (model_cli False)) sample_fs example_writable
         [''rsX 1 2 3 4 0.1 0.2 0.7 0.3 0.3 0.4 0.5 0.3 0.2\<newline>''] =
       Inr \<lparr>sample_out_text = ''ID_1 ID_2 missing\<newline>0 0 0\<newline>fC C 0\<newline>fA A 0\<newline>fB B 0\<newline>'',
            gen_out_text = ''rsX 1 2 3 4 0.5 0.3 0.2 0.1 0.2 0.7 0.3 0.3 0.4\<newline>'',
            n_samples_written = 3, n_lines_written = 1\<rparr>"
    using reorder_three_samples[OF d t, of "parse_options (model_cli False)" "''model.sample''" np "[]"] m
    unfolding j by simp
qed

text \<open>
  C4. A target order with an identifier that the input order does not have. The length of
  the index array is the number of matched samples, so the array is always filled and the
  failure in making the index array is never raised. For the input order \<open>[A, B]\<close> and
  the target order \<open>[A, B, D]\<close> the index array is \<open>[0, 1]\<close>, with or without subsetting;
  the run stops before it is made, with \<open>AttributeError\<close>, when the line of \<open>D\<close> in the
  new sample file is still \<open>None\<close> and is stripped.
\<close>

theorem missing_target_sample_not_reported:
  "index_array_of old_to_new \<noteq> Inl IncompletePermutationError
   \<and> index_resolver (parse_options (model_cli False)) [''fA A'', ''fB B''] [''fA A'', ''fB B'', ''fD D''] ''model.sample'' = Inr [0, 1]
   \<and> index_resolver (parse_options (model_cli True)) [''fA A'', ''fB B''] [''fA A'', ''fB B'', ''fD D''] ''model.sample'' = Inr [0, 1]
   \<and> main np (parse_options (model_cli False)) missing_fs example_writable [''rsX 1 2 3 4 0.1 0.2 0.7 0.3 0.3 0.4\<newline>''] = Inl (PyAttributeError ''strip'')
   \<and> main np (parse_options (model_cli True)) missing_fs example_writable [''rsX 1 2 3 4 0.1 0.2 0.7 0.3 0.3 0.4\<newline>''] = Inl (PyAttributeError ''strip'')"
proof -
  have a: "index_resolver (parse_options (model_cli False)) [''fA A'', ''fB B''] [''fA A'', ''fB B'', ''fD D''] ''model.sample'' = Inr [0, 1]"
    unfolding model_cli_def by code_simp
  have b: "index_resolver (parse_options (model_cli True)) [''fA A'', ''fB B''] [''fA A'', ''fB B'', ''fD D''] ''model.sample'' = Inr [0, 1]"
    unfolding model_cli_def by code_simp
  have c: "main np (parse_options (model_cli False)) missing_fs example_writable [''rsX 1 2 3 4 0.1 0.2 0.7 0.3 0.3 0.4\<newline>''] = Inl (PyAttributeError ''strip'')"
  proof (cases np)
    case NumpyBefore_1_24
    show ?thesis unfolding NumpyBefore_1_24 model_cli_def missing_fs_def by code_simp
  next
    case NumpyFrom_1_24
    show ?thesis unfolding NumpyFrom_1_24 model_cli_def missing_fs_def by code_simp
  qed
  have d: "main np (parse_options (model_cli True)) missing_fs example_writable [''rsX 1 2 3 4 0.1 0.2 0.7 0.3 0.3 0.4\<newline>''] = Inl (PyAttributeError ''strip'')"
  proof (cases np)
    case NumpyBefore_1_24
    show ?thesis unfolding NumpyBefore_1_24 model_cli_def missing_fs_def by code_simp
  next
    case NumpyFrom_1_24
    show ?thesis unfolding NumpyFrom_1_24 model_cli_def missing_fs_def by code_simp
  qed
  show ?thesis using index_array_of_complete a b c d by blast
qed

text \<open>
  C5. A run with no model sample file. The parser stores the order file under the
  attribute \<open>order\<close>; the program reads the attribute \<open>new_order\<close>, which the namespace
  does not have. The run stops with \<open>AttributeError\<close> before the order file is read, though
  the reader would return its three identifiers with no line stripped.
\<close>

theorem order_option_never_read:
  "getattr (parse_options c) ''order'' = Inr (opt_val (cli_order c))
   \<and> getattr (parse_options c) ''new_order'' = Inl (PyAttributeError ''new_order'')
   \<and> read_sample_order sample_fs (PyStr ''order.txt'') False = Inr [''fC C'', ''fA A'', ''fB B'']
   \<and> main np (parse_options order_cli) sample_fs example_writable [''rsX 1 2 3 4 0.1 0.2 0.7 0.3 0.3 0.4 0.5 0.3 0.2\<newline>'']
        = Inl (PyAttributeError ''new_order'')"
proof -
  have a: "getattr (parse_options c) ''order'' = Inr (opt_val (cli_order c))"
    by (simp add: getattr_def parse_options_def)
  have b: "getattr (parse_options c) ''new_order'' = Inl (PyAttributeError ''new_order'')"
    by (simp add: getattr_def parse_options_def)
  have r: "read_sample_order sample_fs (PyStr ''order.txt'') False = Inr [''fC C'', ''fA A'', ''fB B'']"
    unfolding sample_fs_def by code_simp
  have m: "main np (parse_options order_cli) sample_fs example_writable [''rsX 1 2 3 4 0.1 0.2 0.7 0.3 0.3 0.4 0.5 0.3 0.2\<newline>'']
        = Inl (PyAttributeError ''new_order'')"
  proof (cases np)
    case NumpyBefore_1_24
    show ?thesis unfolding NumpyBefore_1_24 order_cli_def sample_fs_def by code_simp
  next
    case NumpyFrom_1_24
    show ?thesis unfolding NumpyFrom_1_24 order_cli_def sample_fs_def by code_simp
  qed
  show ?thesis using a b r m by blast
qed

text \<open>
  C7. A batch whose rows have one column count, with a number of genotype columns that
  is not three times the sample count. The parser never stops with the message that
  names the descriptors of the row: building that message raises \<open>TypeError\<close>. A row of
  thirteen columns has eight genotype columns; for three samples the parser, and the run
  of the stream driver, stop with \<open>TypeError\<close> and nothing is written.
\<close>

theorem genotype_count_mismatch_type_error:
  "read_gen_lines np lines n_samples \<noteq> Inl (GenotypeCountMismatchError d k)
   \<and> gen_tokens ''rsX 1 2 3 4 0.1 0.2 0.7 0.3 0.3 0.4 0.5 0.3\<newline>''
       = [''rsX'', ''1'', ''2'', ''3'', ''4'', ''0.1'', ''0.2'', ''0.7'', ''0.3'', ''0.3'', ''0.4'', ''0.5'', ''0.3'']
   \<and> read_gen_lines np [''rsX 1 2 3 4 0.1 0.2 0.7 0.3 0.3 0.4 0.5 0.3\<newline>''] 3 = Inl PyTypeError
   \<and> write_output np [''rsX 1 2 3 4 0.1 0.2 0.7 0.3 0.3 0.4 0.5 0.3\<newline>''] [] 3 [0, 1, 2] = ([], Inl PyTypeError)"
proof -
  have t: "gen_tokens ''rsX 1 2 3 4 0.1 0.2 0.7 0.3 0.3 0.4 0.5 0.3\<newline>''
       = [''rsX'', ''1'', ''2'', ''3'', ''4'', ''0.1'', ''0.2'', ''0.7'', ''0.3'', ''0.3'', ''0.4'', ''0.5'', ''0.3'']"
    by code_simp
  have r: "read_gen_lines np [''rsX 1 2 3 4 0.1 0.2 0.7 0.3 0.3 0.4 0.5 0.3\<newline>''] 3 = Inl PyTypeError"
  proof (cases np)
    case NumpyBefore_1_24
    show ?thesis unfolding NumpyBefore_1_24 by code_simp
  next
    case NumpyFrom_1_24
    show ?thesis unfolding NumpyFrom_1_24 by code_simp
  qed
  have w: "write_output np [''rsX 1 2 3 4 0.1 0.2 0.7 0.3 0.3 0.4 0.5 0.3\<newline>''] [] 3 [0, 1, 2] = ([], Inl PyTypeError)"
  proof (cases np)
    case NumpyBefore_1_24
    show ?thesis unfolding NumpyBefore_1_24 by code_simp
  next
    case NumpyFrom_1_24
    show ?thesis unfolding NumpyFrom_1_24 by code_simp
  qed
  show ?thesis using read_gen_lines_no_mismatch_message t r w by blast
qed

end
